theory Spec2Isabelle
  imports Main
begin

section \<open>Python values\<close>

text \<open>
  Values decoded from JSON, as \<^verbatim>\<open>json.load\<close> and \<^verbatim>\<open>response.json()\<close> return them.
  \<open>JNull\<close> is Python's \<^verbatim>\<open>None\<close>. An object keeps its items in insertion order, as a
  Python dict does; a lookup reads the first item with the key (a decoded object has no
  repeated key). Numbers are integers: floating point is outside the embedding.
\<close>

datatype json =
    JNull
  | JBool bool
  | JNum int
  | JStr string
  | JArr "json list"
  | JObj "(string \<times> json) list"

text \<open>Truth value testing (\<^verbatim>\<open>if not token\<close>).\<close>

fun truthy :: "json \<Rightarrow> bool" where
  "truthy JNull = False"
| "truthy (JBool b) = b"
| "truthy (JNum n) = (n \<noteq> 0)"
| "truthy (JStr s) = (s \<noteq> [])"
| "truthy (JArr xs) = (xs \<noteq> [])"
| "truthy (JObj kvs) = (kvs \<noteq> [])"

text \<open>
  The two \<^verbatim>\<open>RuntimeError\<close>s of the module are told apart by their message; the second
  message is formatted from the decoded response.
\<close>

datatype message = NotConfigured | UnexpectedResult json

datatype error =
    RuntimeError message
  | TokenExpiredError
  | KeyError
  | TypeError
  | ValueError
  | AttributeError
  | JSONDecodeError
  | EOFError
  | LibraryError string

text \<open>\<^verbatim>\<open>x is not None\<close> for an attribute that holds \<^verbatim>\<open>None\<close> or an object.\<close>

fun is_set :: "'a option \<Rightarrow> bool" where
  "is_set None = False"
| "is_set (Some x) = True"

section \<open>Dictionaries and MicroDict\<close>

text \<open>
  Keys of a dict built from decoded JSON: strings, numbers (\<^verbatim>\<open>True\<close> and \<^verbatim>\<open>False\<close> are
  the keys 1 and 0) and \<^verbatim>\<open>None\<close>. Lists and dicts are unhashable.
\<close>

datatype pykey = KStr string | KNum int | KNone

type_synonym pydict = "pykey \<Rightarrow> json option"

fun hash_key :: "json \<Rightarrow> error + pykey" where
  "hash_key (JStr s) = Inr (KStr s)"
| "hash_key (JNum n) = Inr (KNum n)"
| "hash_key (JBool b) = Inr (KNum (if b then 1 else 0))"
| "hash_key JNull = Inr KNone"
| "hash_key (JArr xs) = Inl TypeError"
| "hash_key (JObj kvs) = Inl TypeError"

text \<open>\<^verbatim>\<open>dict.get(key, default)\<close> and the built-in \<^verbatim>\<open>dict.__getitem__\<close>.\<close>

definition dict_get :: "pydict \<Rightarrow> pykey \<Rightarrow> json \<Rightarrow> json" where
  "dict_get d k dflt = (case d k of None \<Rightarrow> dflt | Some v \<Rightarrow> v)"

definition dict_getitem :: "pydict \<Rightarrow> pykey \<Rightarrow> error + json" where
  "dict_getitem d k = (case d k of None \<Rightarrow> Inl KeyError | Some v \<Rightarrow> Inr v)"

text \<open>
  \<^verbatim>\<open>str.lower\<close> and \<^verbatim>\<open>str.upper\<close> on the letters A to Z and a to z; every other
  character is left as it is.
\<close>

definition lower_char :: "char \<Rightarrow> char" where
  "lower_char c =
     (let n = (of_char c :: nat) in if 65 \<le> n \<and> n \<le> 90 then char_of (n + 32) else c)"

definition upper_char :: "char \<Rightarrow> char" where
  "upper_char c =
     (let n = (of_char c :: nat) in if 97 \<le> n \<and> n \<le> 122 then char_of (n - 32) else c)"

definition str_lower :: "string \<Rightarrow> string" where
  "str_lower s = map lower_char s"

definition str_upper :: "string \<Rightarrow> string" where
  "str_upper s = map upper_char s"

text \<open>\<^verbatim>\<open>key[:1].lower() + key[1:]\<close> and \<^verbatim>\<open>key[:1].upper() + key[1:]\<close>.\<close>

definition lower_first :: "string \<Rightarrow> string" where
  "lower_first key = str_lower (take 1 key) @ drop 1 key"

definition upper_first :: "string \<Rightarrow> string" where
  "upper_first key = str_upper (take 1 key) @ drop 1 key"

text \<open>
  \<^verbatim>\<open>MicroDict.__getitem__\<close>:
  \<^verbatim>\<open>
  result = super(MicroDict, self).get(key[:1].lower() + key[1:], None)
  if result is None:
      result = super(MicroDict, self).get(key[:1].upper() + key[1:])
  return result
  \<close>
\<close>

definition MicroDict_getitem :: "pydict \<Rightarrow> string \<Rightarrow> json" where
  "MicroDict_getitem d key =
     (let result = dict_get d (KStr (lower_first key)) JNull
      in if result = JNull then dict_get d (KStr (upper_first key)) JNull else result)"

text \<open>
  \<^verbatim>\<open>MicroDict(x)\<close> is the constructor of \<^verbatim>\<open>dict\<close>. A mapping is copied. Any other
  iterable is read as a sequence of key/value pairs: each element is turned into a
  sequence (TypeError when it is not iterable), which must have two items (ValueError),
  and the key must be hashable (TypeError). A string iterates over its characters, a
  dict over its keys.
\<close>

fun as_pair :: "json \<Rightarrow> error + json \<times> json" where
  "as_pair (JArr [k, v]) = Inr (k, v)"
| "as_pair (JArr xs) = Inl ValueError"
| "as_pair (JStr [a, b]) = Inr (JStr [a], JStr [b])"
| "as_pair (JStr s) = Inl ValueError"
| "as_pair (JObj [(k1, v1), (k2, v2)]) = Inr (JStr k1, JStr k2)"
| "as_pair (JObj kvs) = Inl ValueError"
| "as_pair x = Inl TypeError"

fun dict_update_seq :: "json list \<Rightarrow> pydict \<Rightarrow> error + pydict" where
  "dict_update_seq [] d = Inr d"
| "dict_update_seq (x # xs) d =
     (case as_pair x of
        Inl e \<Rightarrow> Inl e
      | Inr (k, v) \<Rightarrow>
          (case hash_key k of
             Inl e \<Rightarrow> Inl e
           | Inr hk \<Rightarrow> dict_update_seq xs (d(hk \<mapsto> v))))"

definition dict_of_items :: "(string \<times> json) list \<Rightarrow> pydict" where
  "dict_of_items kvs = map_of (map (\<lambda>(k, v). (KStr k, v)) kvs)"

fun MicroDict_new :: "json \<Rightarrow> error + pydict" where
  "MicroDict_new (JObj kvs) = Inr (dict_of_items kvs)"
| "MicroDict_new (JArr xs) = dict_update_seq xs Map.empty"
| "MicroDict_new (JStr s) = dict_update_seq (map (\<lambda>c. JStr [c]) s) Map.empty"
| "MicroDict_new x = Inl TypeError"

section \<open>The connection and the world around it\<close>

text \<open>
  An \<^verbatim>\<open>OAuth2Session\<close> of requests-oauthlib, as the module constructs it: the keyword
  arguments of the constructor. What the library keeps inside the session afterwards
  (the current token) belongs to the library.
\<close>

record OAuth2Session =
  s_client_id :: string
  s_redirect_uri :: "string option"
  s_scope :: "string list option"
  s_token :: "json option"

record Connection =
  api_version :: "string option"
  auth :: "(string \<times> string) option"
  oauth :: "OAuth2Session option"
  client_id :: "string option"
  client_secret :: "string option"
  token :: "json option"
  proxy_dict :: "(string \<times> string) list option"

text \<open>Keyword options of a GET: the values the module itself puts there, or a caller's.\<close>

datatype optval =
    Proxies "(string \<times> string) list"
  | Creds "(string \<times> string) option"
  | Opt json

type_synonym options = "string \<Rightarrow> optval option"

text \<open>A response of the transport: its url and what \<^verbatim>\<open>response.json()\<close> gives.\<close>

record response =
  r_url :: string
  r_json :: "error + json"

text \<open>Calls that leave the process, in the order they are made.\<close>

datatype event =
    AuthorizationUrl OAuth2Session string string
  | Print string
  | Input string
  | FetchToken OAuth2Session string string string
  | RefreshToken OAuth2Session string "string option" "string option"
  | RequestsGet string options
  | SessionGet OAuth2Session string options

text \<open>
  The mutable state of the process: the instance kept by the \<^verbatim>\<open>Singleton\<close> metaclass,
  the files (path to content), \<^verbatim>\<open>os.environ\<close>, and the calls made so far. Files are
  plain: opening, writing and unlinking a path do not fail.
\<close>

record world =
  Singleton_instance :: "Connection option"
  files :: "string \<Rightarrow> string option"
  environ :: "string \<Rightarrow> string option"
  trace :: "event list"

text \<open>
  What the libraries and the user answer. The first argument of an answer is the number
  of calls made before it, so that the same call can be answered differently the second
  time. \<open>json_dump\<close> is \<^verbatim>\<open>json.dump(_, indent=True)\<close> and \<open>json_load\<close> is
  \<^verbatim>\<open>json.load\<close>; \<open>home\<close> is \<^verbatim>\<open>path.expanduser("~")\<close>.
\<close>

record env =
  home :: string
  json_dump :: "json \<Rightarrow> string"
  json_load :: "string \<Rightarrow> error + json"
  authorization_url :: "nat \<Rightarrow> OAuth2Session \<Rightarrow> string \<Rightarrow> string \<Rightarrow> string \<times> string"
  input_line :: "nat \<Rightarrow> string \<Rightarrow> error + string"
  fetch_token :: "nat \<Rightarrow> OAuth2Session \<Rightarrow> string \<Rightarrow> string \<Rightarrow> string \<Rightarrow> error + json"
  refresh_token ::
    "nat \<Rightarrow> OAuth2Session \<Rightarrow> string \<Rightarrow> string option \<Rightarrow> string option \<Rightarrow> error + json"
  requests_get :: "nat \<Rightarrow> string \<Rightarrow> options \<Rightarrow> error + response"
  session_get :: "nat \<Rightarrow> OAuth2Session \<Rightarrow> string \<Rightarrow> options \<Rightarrow> error + response"

section \<open>Token files\<close>

text \<open>\<^verbatim>\<open>posixpath.join(a, b)\<close> for two components.\<close>

definition path_join :: "string \<Rightarrow> string \<Rightarrow> string" where
  "path_join a b =
     (if take 1 b = ''/'' then b
      else if a = [] \<or> last a = CHR ''/'' then a @ b
      else a @ ''/'' @ b)"

definition default_token_file :: string where
  "default_token_file = ''.o365_token''"

definition default_token_path :: "env \<Rightarrow> string" where
  "default_token_path E = path_join (home E) default_token_file"

text \<open>
  \<^verbatim>\<open>if not token_path: token_path = default_token_path\<close>, for \<^verbatim>\<open>None\<close> and for the
  empty string.
\<close>

definition resolve_path :: "env \<Rightarrow> string option \<Rightarrow> string" where
  "resolve_path E token_path =
     (case token_path of
        None \<Rightarrow> default_token_path E
      | Some p \<Rightarrow> if p = [] then default_token_path E else p)"

definition save_token :: "env \<Rightarrow> json \<Rightarrow> string option \<Rightarrow> world \<Rightarrow> world" where
  "save_token E tok token_path w =
     w\<lparr>files := (files w)(resolve_path E token_path \<mapsto> json_dump E tok)\<rparr>"

text \<open>
  \<open>load_token\<close> gives \<open>JNull\<close> (\<^verbatim>\<open>None\<close>) when no file exists at the path, and raises
  what \<^verbatim>\<open>json.load\<close> raises on a file that does not decode.
\<close>

definition load_token :: "env \<Rightarrow> string option \<Rightarrow> world \<Rightarrow> error + json" where
  "load_token E token_path w =
     (case files w (resolve_path E token_path) of
        None \<Rightarrow> Inr JNull
      | Some text \<Rightarrow> json_load E text)"

definition delete_token :: "env \<Rightarrow> string option \<Rightarrow> world \<Rightarrow> world" where
  "delete_token E token_path w =
     (case files w (resolve_path E token_path) of
        None \<Rightarrow> w
      | Some text \<Rightarrow> w\<lparr>files := (files w)(resolve_path E token_path := None)\<rparr>)"

section \<open>Connection\<close>

definition oauth2_authorize_url :: string where
  "oauth2_authorize_url = ''https://login.microsoftonline.com/common/oauth2/v2.0/authorize''"

definition oauth2_token_url :: string where
  "oauth2_token_url = ''https://login.microsoftonline.com/common/oauth2/v2.0/token''"

text \<open>\<^verbatim>\<open>Connection.__init__\<close>.\<close>

definition Connection_init :: Connection where
  "Connection_init =
     \<lparr>api_version = None, auth = None, oauth = None, client_id = None,
      client_secret = None, token = None, proxy_dict = None\<rparr>"

text \<open>
  \<^verbatim>\<open>Connection()\<close>, through \<^verbatim>\<open>Singleton.__call__\<close>: the instance is made and
  initialised on the first call and returned as it is on every later one.
\<close>

definition Connection_call :: "world \<Rightarrow> Connection \<times> world" where
  "Connection_call w =
     (case Singleton_instance w of
        None \<Rightarrow> (Connection_init, w\<lparr>Singleton_instance := Some Connection_init\<rparr>)
      | Some c \<Rightarrow> (c, w))"

text \<open>The state of the one connection of the process.\<close>

definition the_connection :: "world \<Rightarrow> Connection" where
  "the_connection w = fst (Connection_call w)"

text \<open>
  \<^verbatim>\<open>is_valid\<close> tests the truth value of \<open>auth\<close> and of \<open>oauth\<close>. A pair of credentials and a
  session are true whenever they are there, so the test is whether the field is set.
\<close>

definition is_valid :: "Connection \<Rightarrow> bool" where
  "is_valid c =
     (if api_version c = Some ''1.0'' then (if is_set (auth c) then True else False)
      else if api_version c = Some ''2.0'' then (if is_set (oauth c) then True else False)
      else False)"

definition login :: "string \<Rightarrow> string \<Rightarrow> world \<Rightarrow> Connection \<times> world" where
  "login username password w =
     (let (c, w1) = Connection_call w;
          c1 = c\<lparr>api_version := Some ''1.0'', auth := Some (username, password)\<rparr>
      in (c1, w1\<lparr>Singleton_instance := Some c1\<rparr>))"

definition proxy :: "string \<Rightarrow> string \<Rightarrow> string \<Rightarrow> string \<Rightarrow> world \<Rightarrow> Connection \<times> world" where
  "proxy url port username password w =
     (let (c, w1) = Connection_call w;
          c1 = c\<lparr>proxy_dict := Some
                 [(''http'', ''http://'' @ username @ '':'' @ password @ ''@'' @ url @ '':'' @ port),
                  (''https'', ''https://'' @ username @ '':'' @ password @ ''@'' @ url @ '':'' @ port)]\<rparr>
      in (c1, w1\<lparr>Singleton_instance := Some c1\<rparr>))"

text \<open>One call that leaves the process is added to the trace.\<close>

definition emit :: "event \<Rightarrow> world \<Rightarrow> world" where
  "emit ev w = w\<lparr>trace := trace w @ [ev]\<rparr>"

text \<open>
  The two ways the module constructs a session: for a new authorisation, and from a
  stored token.
\<close>

definition new_session :: "string \<Rightarrow> OAuth2Session" where
  "new_session cid =
     \<lparr>s_client_id = cid,
      s_redirect_uri = Some ''https://outlook.office365.com/owa/'',
      s_scope = Some [''https://graph.microsoft.com/Mail.ReadWrite'',
                      ''https://graph.microsoft.com/Mail.Send'',
                      ''offline_access''],
      s_token = None\<rparr>"

definition stored_session :: "string \<Rightarrow> json \<Rightarrow> OAuth2Session" where
  "stored_session cid tok =
     \<lparr>s_client_id = cid, s_redirect_uri = None, s_scope = None, s_token = Some tok\<rparr>"

definition input_prompt :: string where
  "input_prompt = ''Enter the full result url: ''"

text \<open>
  The branch of \<^verbatim>\<open>oauth2\<close> taken when no usable token is stored: the session is put on
  the connection first, then the user authorises the application and the token is
  fetched and saved.
\<close>

definition authorize :: "env \<Rightarrow> string \<Rightarrow> string \<Rightarrow> string option \<Rightarrow> Connection \<Rightarrow> world
    \<Rightarrow> (error + Connection) \<times> world" where
  "authorize E cid csecret token_path c w =
     (let s = new_session cid;
          c1 = c\<lparr>oauth := Some s\<rparr>;
          w1 = w\<lparr>Singleton_instance := Some c1\<rparr>;
          (auth_url, state) =
             authorization_url E (length (trace w1)) s oauth2_authorize_url ''offline'';
          w2 = emit (AuthorizationUrl s oauth2_authorize_url ''offline'') w1;
          w3 = emit (Print (''Please open '' @ auth_url @ '' and authorize the application'')) w2;
          answer = input_line E (length (trace w3)) input_prompt;
          w4 = emit (Input input_prompt) w3
      in case answer of
           Inl e \<Rightarrow> (Inl e, w4)
         | Inr auth_resp \<Rightarrow>
             (let w5 = w4\<lparr>environ := (environ w4)(''OAUTHLIB_RELAX_TOKEN_SCOPE'' \<mapsto> ''Y'')\<rparr>;
                  fetched = fetch_token E (length (trace w5)) s oauth2_token_url auth_resp csecret;
                  w6 = emit (FetchToken s oauth2_token_url auth_resp csecret) w5
              in case fetched of
                   Inl e \<Rightarrow> (Inl e, w6)
                 | Inr tok \<Rightarrow> (Inr c1, save_token E tok token_path w6)))"

definition oauth2 :: "env \<Rightarrow> string \<Rightarrow> string \<Rightarrow> bool \<Rightarrow> string option \<Rightarrow> world
    \<Rightarrow> (error + Connection) \<times> world" where
  "oauth2 E cid csecret store_token token_path w =
     (let (c, w1) = Connection_call w;
          c1 = c\<lparr>api_version := Some ''2.0'', client_id := Some cid, client_secret := Some csecret\<rparr>;
          w2 = w1\<lparr>Singleton_instance := Some c1\<rparr>;
          w3 = (if \<not> store_token then delete_token E token_path w2 else w2)
      in case load_token E token_path w3 of
           Inl e \<Rightarrow> (Inl e, w3)
         | Inr tok \<Rightarrow>
             if \<not> truthy tok then authorize E cid csecret token_path c1 w3
             else
               (let c2 = c1\<lparr>oauth := Some (stored_session cid tok)\<rparr>
                in (Inr c2, w3\<lparr>Singleton_instance := Some c2\<rparr>)))"

section \<open>Requests\<close>

text \<open>
  \<^verbatim>\<open>
  con_params = {}
  if connection.proxy_dict:
      con_params['proxies'] = connection.proxy_dict
  con_params.update(kwargs)
  \<close>
\<close>

definition build_params :: "Connection \<Rightarrow> options \<Rightarrow> options" where
  "build_params c kwargs =
     (let con_params =
            (case proxy_dict c of
               None \<Rightarrow> Map.empty
             | Some d \<Rightarrow> if d = [] then Map.empty else [''proxies'' \<mapsto> Proxies d])
      in con_params ++ kwargs)"

text \<open>
  The GET itself. With api version 1.0 the credentials are put into the options after
  the caller's have been merged. Otherwise the session sends the request; on
  \<^verbatim>\<open>TokenExpiredError\<close> the token is refreshed, saved with \<^verbatim>\<open>save_token(token)\<close> and
  the request is sent again, outside the \<^verbatim>\<open>try\<close>.
\<close>

definition send_request :: "env \<Rightarrow> string \<Rightarrow> options \<Rightarrow> Connection \<Rightarrow> world
    \<Rightarrow> (error + response) \<times> world" where
  "send_request E request_url con_params c w =
     (if api_version c = Some ''1.0'' then
        (let params = con_params(''auth'' \<mapsto> Creds (auth c))
         in (requests_get E (length (trace w)) request_url params,
             emit (RequestsGet request_url params) w))
      else
        (case oauth c of
           None \<Rightarrow> (Inl AttributeError, w)
         | Some s \<Rightarrow>
             (let first = session_get E (length (trace w)) s request_url con_params;
                  w1 = emit (SessionGet s request_url con_params) w
              in if first = Inl TokenExpiredError then
                   (let refreshed = refresh_token E (length (trace w1)) s oauth2_token_url
                                      (client_id c) (client_secret c);
                        w2 = emit (RefreshToken s oauth2_token_url (client_id c) (client_secret c)) w1
                    in case refreshed of
                         Inl e \<Rightarrow> (Inl e, w2)
                       | Inr tok \<Rightarrow>
                           (let w3 = save_token E tok None w2
                            in (session_get E (length (trace w3)) s request_url con_params,
                                emit (SessionGet s request_url con_params) w3)))
                 else (first, w1))))"

text \<open>\<^verbatim>\<open>sub in s\<close> for two strings.\<close>

fun starts_with :: "string \<Rightarrow> string \<Rightarrow> bool" where
  "starts_with [] s = True"
| "starts_with (p # ps) [] = False"
| "starts_with (p # ps) (c # cs) = (p = c \<and> starts_with ps cs)"

fun str_contains :: "string \<Rightarrow> string \<Rightarrow> bool" where
  "str_contains sub [] = (sub = [])"
| "str_contains sub (c # cs) = (starts_with sub (c # cs) \<or> str_contains sub cs)"

text \<open>\<^verbatim>\<open>key in x\<close>, \<^verbatim>\<open>x[key]\<close> for a string key, and iteration over \<^verbatim>\<open>x\<close>.\<close>

fun py_contains :: "json \<Rightarrow> string \<Rightarrow> error + bool" where
  "py_contains (JObj kvs) key = Inr (is_set (map_of kvs key))"
| "py_contains (JArr xs) key = Inr (JStr key \<in> set xs)"
| "py_contains (JStr s) key = Inr (str_contains key s)"
| "py_contains x key = Inl TypeError"

fun py_index :: "json \<Rightarrow> string \<Rightarrow> error + json" where
  "py_index (JObj kvs) key = (case map_of kvs key of None \<Rightarrow> Inl KeyError | Some v \<Rightarrow> Inr v)"
| "py_index x key = Inl TypeError"

fun py_iter :: "json \<Rightarrow> error + json list" where
  "py_iter (JArr xs) = Inr xs"
| "py_iter (JObj kvs) = Inr (map (\<lambda>kv. JStr (fst kv)) kvs)"
| "py_iter (JStr s) = Inr (map (\<lambda>c. JStr [c]) s)"
| "py_iter x = Inl TypeError"

text \<open>\<^verbatim>\<open>[MicroDict(x) for x in xs]\<close>: the first element that fails ends the loop.\<close>

fun wrap_all :: "json list \<Rightarrow> error + pydict list" where
  "wrap_all [] = Inr []"
| "wrap_all (x # xs) =
     (case MicroDict_new x of
        Inl e \<Rightarrow> Inl e
      | Inr d \<Rightarrow> (case wrap_all xs of Inl e \<Rightarrow> Inl e | Inr ds \<Rightarrow> Inr (d # ds)))"

text \<open>
  \<^verbatim>\<open>
  response_json = response.json()
  if 'value' not in response_json:
      raise RuntimeError('Something went wrong, received an unexpected result \n{}'.format(response_json))
  response_values = [MicroDict(x) for x in response_json['value']]
  return response_values
  \<close>
\<close>

definition read_values :: "response \<Rightarrow> error + pydict list" where
  "read_values r =
     (case r_json r of
        Inl e \<Rightarrow> Inl e
      | Inr response_json \<Rightarrow>
          (case py_contains response_json ''value'' of
             Inl e \<Rightarrow> Inl e
           | Inr present \<Rightarrow>
               if \<not> present then Inl (RuntimeError (UnexpectedResult response_json))
               else
                 (case py_index response_json ''value'' of
                    Inl e \<Rightarrow> Inl e
                  | Inr v \<Rightarrow> (case py_iter v of Inl e \<Rightarrow> Inl e | Inr xs \<Rightarrow> wrap_all xs))))"

definition get_response :: "env \<Rightarrow> string \<Rightarrow> options \<Rightarrow> world
    \<Rightarrow> (error + pydict list) \<times> world" where
  "get_response E request_url kwargs w =
     (let (c, w1) = Connection_call w
      in if \<not> is_valid c then (Inl (RuntimeError NotConfigured), w1)
         else
           (case send_request E request_url (build_params c kwargs) c w1 of
              (Inl e, w2) \<Rightarrow> (Inl e, w2)
            | (Inr r, w2) \<Rightarrow> (read_values r, w2)))"

section \<open>Sequences of constructor calls\<close>






text \<open>A process that has not touched the connection yet.\<close>

definition fresh :: "world \<Rightarrow> bool" where
  "fresh w = (\<not> is_set (Singleton_instance w))"

text \<open>The options of the GETs sent between two states of the world, oldest first.\<close>

fun request_options :: "event \<Rightarrow> options list" where
  "request_options (RequestsGet u p) = [p]"
| "request_options (SessionGet s u p) = [p]"
| "request_options ev = []"

definition sent_options :: "world \<Rightarrow> world \<Rightarrow> options list" where
  "sent_options w w' = concat (map request_options (drop (length (trace w)) (trace w')))"

definition sent_values :: "string \<Rightarrow> world \<Rightarrow> world \<Rightarrow> optval option list" where
  "sent_values key w w' = map (\<lambda>p. p key) (sent_options w w')"

section \<open>A small world to run the module in\<close>

text \<open>
  Test doubles for the libraries: a JSON codec that knows two documents, a user who
  pastes a redirect url, a token endpoint, and a transport whose session reports an
  expired token on the very first call and answers with two items afterwards.
\<close>

definition token_a :: json where
  "token_a = JObj [(''access_token'', JStr ''a'')]"

definition token_b :: json where
  "token_b = JObj [(''access_token'', JStr ''b'')]"

definition stub_dump :: "json \<Rightarrow> string" where
  "stub_dump t = (if t = token_a then ''A'' else if t = token_b then ''B'' else ''null'')"

definition stub_load :: "string \<Rightarrow> error + json" where
  "stub_load s =
     (if s = ''A'' then Inr token_a else if s = ''B'' then Inr token_b
      else if s = ''null'' then Inr JNull else Inl JSONDecodeError)"

definition stub_body :: json where
  "stub_body = JObj [(''value'', JArr [JObj [(''Subject'', JStr ''x'')], JObj [(''b'', JNum 2)]])]"

definition stub_response :: response where
  "stub_response = \<lparr>r_url = ''https://outlook.office365.com/api'', r_json = Inr stub_body\<rparr>"

definition other_response :: response where
  "other_response =
     \<lparr>r_url = ''https://outlook.office365.com/other'', r_json = Inr (JObj [(''other'', JNum 1)])\<rparr>"

definition stub_env :: env where
  "stub_env =
     \<lparr>home = ''/home/u'',
      json_dump = stub_dump,
      json_load = stub_load,
      authorization_url = (\<lambda>n s url access. (url @ ''?client_id='' @ s_client_id s, ''state'')),
      input_line = (\<lambda>n prompt. Inr ''https://outlook.office365.com/owa/?code=c''),
      fetch_token = (\<lambda>n s url resp secret. Inr token_a),
      refresh_token = (\<lambda>n s url cid secret. Inr token_b),
      requests_get = (\<lambda>n url params.
         if url = ''https://outlook.office365.com/other'' then Inr other_response
         else Inr stub_response),
      session_get = (\<lambda>n s url params. if n = 0 then Inl TokenExpiredError else Inr stub_response)\<rparr>"

definition empty_world :: world where
  "empty_world =
     \<lparr>Singleton_instance = None, files = Map.empty, environ = Map.empty, trace = []\<rparr>"

text \<open>The world after \<^verbatim>\<open>Connection.login('u', 'p')\<close>, and its connection.\<close>

definition login_world :: world where
  "login_world = snd (login ''u'' ''p'' empty_world)"

definition login_conn :: Connection where
  "login_conn = Connection_init\<lparr>api_version := Some ''1.0'', auth := Some (''u'', ''p'')\<rparr>"

text \<open>
  The world in which \<^verbatim>\<open>oauth2\<close> has been set up from a token stored at a path of the
  caller's, and its connection.
\<close>

definition oauth_world :: world where
  "oauth_world =
     snd (oauth2 stub_env ''id'' ''secret'' True (Some ''/tmp/token'')
            (save_token stub_env token_a (Some ''/tmp/token'') empty_world))"

definition oauth_conn :: Connection where
  "oauth_conn =
     Connection_init\<lparr>api_version := Some ''2.0'', client_id := Some ''id'',
       client_secret := Some ''secret'', oauth := Some (stored_session ''id'' token_a)\<rparr>"

section \<open>Case of the first character\<close>












lemma upper_first_subject: "upper_first ''subject'' = ''Subject''"
  by (simp add: upper_first_def str_upper_def upper_char_def char_of_eq_iff)

lemma lower_first_subject: "lower_first ''subject'' = ''subject''"
  by (simp add: lower_first_def str_lower_def lower_char_def)


section \<open>MicroDict lookup\<close>




text \<open>
  C10. Indexing a MicroDict is total, for every key (the empty one too) and every
  mapping: it is made of two \<^verbatim>\<open>dict.get\<close> and gives a value in each of its cases, where
  the built-in indexing of a dict raises KeyError on a key that is absent. The result is
  \<^verbatim>\<open>None\<close> when neither variant of the key is present, and the value of the upper-case
  variant (or \<^verbatim>\<open>None\<close>) when the lower-case variant is present with the value \<^verbatim>\<open>None\<close>.
\<close>

theorem MicroDict_getitem_total:
  "(d (KStr (lower_first key)) = None \<and> d (KStr (upper_first key)) = None \<longrightarrow>
      MicroDict_getitem d key = JNull \<and> dict_getitem d (KStr (lower_first key)) = Inl KeyError
      \<and> dict_getitem d (KStr (upper_first key)) = Inl KeyError)
   \<and> (d (KStr (lower_first key)) = Some JNull \<longrightarrow>
        MicroDict_getitem d key = (case d (KStr (upper_first key)) of None \<Rightarrow> JNull | Some u \<Rightarrow> u))
   \<and> (\<exists>r. MicroDict_getitem d key = r \<and>
          (r = JNull \<or> d (KStr (lower_first key)) = Some r \<or> d (KStr (upper_first key)) = Some r))
   \<and> MicroDict_getitem d [] = (case d (KStr []) of None \<Rightarrow> JNull | Some u \<Rightarrow> u)"
proof (intro conjI impI)
  assume "d (KStr (lower_first key)) = None \<and> d (KStr (upper_first key)) = None"
  then show "MicroDict_getitem d key = JNull"
    and "dict_getitem d (KStr (lower_first key)) = Inl KeyError"
    and "dict_getitem d (KStr (upper_first key)) = Inl KeyError"
    by (simp_all add: MicroDict_getitem_def dict_get_def dict_getitem_def)
next
  assume "d (KStr (lower_first key)) = Some JNull"
  then show "MicroDict_getitem d key = (case d (KStr (upper_first key)) of None \<Rightarrow> JNull | Some u \<Rightarrow> u)"
    by (simp add: MicroDict_getitem_def dict_get_def)
next
  show "\<exists>r. MicroDict_getitem d key = r \<and>
          (r = JNull \<or> d (KStr (lower_first key)) = Some r \<or> d (KStr (upper_first key)) = Some r)"
    by (auto simp add: MicroDict_getitem_def dict_get_def split: option.splits)
next
  show "MicroDict_getitem d [] = (case d (KStr []) of None \<Rightarrow> JNull | Some u \<Rightarrow> u)"
    by (auto simp add: MicroDict_getitem_def dict_get_def lower_first_def upper_first_def
          str_lower_def str_upper_def split: option.splits)
qed

theorem MicroDict_getitem_total_witness:
  "MicroDict_getitem (dict_of_items [(''Subject'', JStr ''x'')]) ''other'' = JNull
   \<and> dict_getitem (dict_of_items [(''Subject'', JStr ''x'')]) (KStr ''other'') = Inl KeyError
   \<and> MicroDict_getitem (dict_of_items [(''subject'', JNull), (''Subject'', JStr ''x'')]) ''subject''
       = JStr ''x''
   \<and> MicroDict_getitem Map.empty [] = JNull"
proof (intro conjI)
  have lo: "lower_first ''other'' = ''other''"
    by (simp add: lower_first_def str_lower_def lower_char_def)
  have up: "upper_first ''other'' = ''Other''"
    by (simp add: upper_first_def str_upper_def upper_char_def char_of_eq_iff)
  show "MicroDict_getitem (dict_of_items [(''Subject'', JStr ''x'')]) ''other'' = JNull"
    using MicroDict_getitem_total [of "dict_of_items [(''Subject'', JStr ''x'')]" "''other''"]
    by (simp add: dict_of_items_def lo up)
  show "dict_getitem (dict_of_items [(''Subject'', JStr ''x'')]) (KStr ''other'') = Inl KeyError"
    using MicroDict_getitem_total [of "dict_of_items [(''Subject'', JStr ''x'')]" "''other''"]
    by (simp add: dict_of_items_def lo up)
  show "MicroDict_getitem (dict_of_items [(''subject'', JNull), (''Subject'', JStr ''x'')]) ''subject''
       = JStr ''x''"
    using MicroDict_getitem_total
      [of "dict_of_items [(''subject'', JNull), (''Subject'', JStr ''x'')]" "''subject''"]
    by (simp add: dict_of_items_def lower_first_subject upper_first_subject)
  show "MicroDict_getitem Map.empty [] = JNull"
    using MicroDict_getitem_total [of Map.empty "[]"] by simp
qed

section \<open>Validity of the connection\<close>

lemma authorize_instance:
  "Singleton_instance (snd (authorize E cid cs tp c w)) =
     Some (c\<lparr>oauth := Some (new_session cid)\<rparr>)"
  by (simp add: authorize_def Let_def emit_def save_token_def split: prod.split sum.split)

lemma authorize_Inr:
  "fst (authorize E cid cs tp c w) = Inr c' \<Longrightarrow> c' = c\<lparr>oauth := Some (new_session cid)\<rparr>"
  by (simp add: authorize_def Let_def emit_def save_token_def split: prod.split_asm sum.split_asm)



text \<open>The steps of \<^verbatim>\<open>oauth2\<close> up to the choice between its two branches.\<close>

lemma oauth2_unfold:
  assumes cw: "Connection_call w = (c, w1)"
    and c1: "c1 = c\<lparr>api_version := Some ''2.0'', client_id := Some cid, client_secret := Some cs\<rparr>"
    and w3: "w3 = (if \<not> st then delete_token E tp (w1\<lparr>Singleton_instance := Some c1\<rparr>)
                   else w1\<lparr>Singleton_instance := Some c1\<rparr>)"
  shows "oauth2 E cid cs st tp w =
     (case load_token E tp w3 of
        Inl e \<Rightarrow> (Inl e, w3)
      | Inr tok \<Rightarrow>
          if \<not> truthy tok then authorize E cid cs tp c1 w3
          else (Inr (c1\<lparr>oauth := Some (stored_session cid tok)\<rparr>),
                w3\<lparr>Singleton_instance := Some (c1\<lparr>oauth := Some (stored_session cid tok)\<rparr>)\<rparr>))"
  unfolding oauth2_def Let_def cw c1 w3 prod.case by (rule refl)

lemma oauth2_Inr:
  assumes "fst (oauth2 E cid cs st tp w) = Inr c'"
  shows "Singleton_instance (snd (oauth2 E cid cs st tp w)) = Some c'
         \<and> api_version c' = Some ''2.0'' \<and> is_set (oauth c')"
proof -
  obtain c w1 where cw: "Connection_call w = (c, w1)" by (cases "Connection_call w")
  define c1 where "c1 = c\<lparr>api_version := Some ''2.0'', client_id := Some cid, client_secret := Some cs\<rparr>"
  define w3 where "w3 = (if \<not> st then delete_token E tp (w1\<lparr>Singleton_instance := Some c1\<rparr>)
                         else w1\<lparr>Singleton_instance := Some c1\<rparr>)"
  note unf = oauth2_unfold [OF cw c1_def w3_def]
  show ?thesis
  proof (cases "load_token E tp w3")
    case (Inl e)
    with assms unf show ?thesis by simp
  next
    case (Inr tok)
    show ?thesis
    proof (cases "truthy tok")
      case True
      with assms unf Inr show ?thesis by (auto simp: c1_def)
    next
      case False
      with assms unf Inr have a: "fst (authorize E cid cs tp c1 w3) = Inr c'" by simp
      from authorize_Inr [OF a] have "c' = c1\<lparr>oauth := Some (new_session cid)\<rparr>" .
      with False unf Inr show ?thesis by (simp add: authorize_instance c1_def)
    qed
  qed
qed

lemma the_connection_login: "the_connection (snd (login u p w)) = fst (login u p w)"
  by (simp add: login_def the_connection_def Connection_call_def Let_def
        split: prod.splits option.splits)

text \<open>
  C7. \<^verbatim>\<open>is_valid()\<close> is true exactly when the api version is "1.0" and \<open>auth\<close> is set, or
  the api version is "2.0" and \<open>oauth\<close> is set. It is false on a connection as
  \<^verbatim>\<open>__init__\<close> leaves it, true on the connection that \<^verbatim>\<open>login\<close> returns (which is the
  connection of the process from then on), and true on the connection that \<^verbatim>\<open>oauth2\<close>
  returns.
\<close>

theorem is_valid_iff:
  "(is_valid c \<longleftrightarrow>
      (api_version c = Some ''1.0'' \<and> is_set (auth c)) \<or>
      (api_version c = Some ''2.0'' \<and> is_set (oauth c)))
   \<and> \<not> is_valid Connection_init
   \<and> (fresh w \<longrightarrow> \<not> is_valid (the_connection w))
   \<and> is_valid (fst (login u p w))
   \<and> is_valid (the_connection (snd (login u p w)))
   \<and> (fst (oauth2 E cid cs st tp w) = Inr c' \<longrightarrow>
        is_valid c' \<and> the_connection (snd (oauth2 E cid cs st tp w)) = c')"
proof (intro conjI impI)
  show "is_valid c \<longleftrightarrow>
      (api_version c = Some ''1.0'' \<and> is_set (auth c)) \<or>
      (api_version c = Some ''2.0'' \<and> is_set (oauth c))"
    by (auto simp: is_valid_def)
  show "\<not> is_valid Connection_init"
    by (simp add: is_valid_def Connection_init_def)
  show "is_valid (fst (login u p w))"
    by (simp add: login_def is_valid_def Let_def split: prod.splits)
  then show "is_valid (the_connection (snd (login u p w)))"
    by (simp add: the_connection_login)
next
  assume "fresh w"
  then show "\<not> is_valid (the_connection w)"
    by (cases "Singleton_instance w")
       (simp_all add: fresh_def the_connection_def Connection_call_def is_valid_def
          Connection_init_def)
next
  assume a: "fst (oauth2 E cid cs st tp w) = Inr c'"
  from oauth2_Inr [OF a] show "is_valid c'" by (simp add: is_valid_def)
  from oauth2_Inr [OF a] show "the_connection (snd (oauth2 E cid cs st tp w)) = c'"
    by (simp add: the_connection_def Connection_call_def)
qed


section \<open>The small world, evaluated\<close>

lemma stub_env_sel:
  "home stub_env = ''/home/u''"
  "json_dump stub_env = stub_dump"
  "json_load stub_env = stub_load"
  "authorization_url stub_env n s url access = (url @ ''?client_id='' @ s_client_id s, ''state'')"
  "input_line stub_env n prompt = Inr ''https://outlook.office365.com/owa/?code=c''"
  "fetch_token stub_env n s url resp secret = Inr token_a"
  "refresh_token stub_env n s url cid' secret' = Inr token_b"
  "requests_get stub_env n url params =
     (if url = ''https://outlook.office365.com/other'' then Inr other_response
      else Inr stub_response)"
  "session_get stub_env n s url params =
     (if n = 0 then Inl TokenExpiredError else Inr stub_response)"
  by (simp_all add: stub_env_def)



lemma stub_resolve_Some: "p \<noteq> [] \<Longrightarrow> resolve_path stub_env (Some p) = p"
  by (simp add: resolve_path_def)


lemma stub_oauth2_fst:
  "fst (oauth2 stub_env ''id'' ''secret'' True None empty_world) =
     Inr (Connection_init\<lparr>api_version := Some ''2.0'', client_id := Some ''id'',
            client_secret := Some ''secret'', oauth := Some (new_session ''id'')\<rparr>)"
  by (simp add: oauth2_def Connection_call_def empty_world_def load_token_def Let_def
        authorize_def emit_def save_token_def stub_env_sel Connection_init_def)

theorem is_valid_iff_witness:
  "fresh empty_world
   \<and> \<not> is_valid (the_connection empty_world)
   \<and> fst (oauth2 stub_env ''id'' ''secret'' True None empty_world) =
       Inr (Connection_init\<lparr>api_version := Some ''2.0'', client_id := Some ''id'',
              client_secret := Some ''secret'', oauth := Some (new_session ''id'')\<rparr>)
   \<and> is_valid (Connection_init\<lparr>api_version := Some ''2.0'', client_id := Some ''id'',
         client_secret := Some ''secret'', oauth := Some (new_session ''id'')\<rparr>)
   \<and> the_connection (snd (oauth2 stub_env ''id'' ''secret'' True None empty_world)) =
       Connection_init\<lparr>api_version := Some ''2.0'', client_id := Some ''id'',
         client_secret := Some ''secret'', oauth := Some (new_session ''id'')\<rparr>"
proof -
  have f: "fresh empty_world" by (simp add: fresh_def empty_world_def)
  show ?thesis
    using f stub_oauth2_fst
      is_valid_iff [where c = Connection_init and u = "''u''" and p = "''p''"
        and w = empty_world and E = stub_env and cid = "''id''"
        and cs = "''secret''" and st = True and tp = None
        and c' = "Connection_init\<lparr>api_version := Some ''2.0'', client_id := Some ''id'',
                    client_secret := Some ''secret'', oauth := Some (new_session ''id'')\<rparr>"]
    by simp
qed

section \<open>Requests on a connection that is not configured\<close>

text \<open>
  C6. \<^verbatim>\<open>get_response\<close> on a connection for which \<^verbatim>\<open>is_valid()\<close> is false raises the
  RuntimeError that tells the caller to configure the connection. No call has left the
  process by then (the trace is as before), and the connection, the files and the
  environment are as before; when the instance exists already, the whole state is.
\<close>

theorem get_response_not_configured:
  "\<not> is_valid (the_connection w) \<Longrightarrow>
     fst (get_response E request_url kwargs w) = Inl (RuntimeError NotConfigured)
     \<and> trace (snd (get_response E request_url kwargs w)) = trace w
     \<and> files (snd (get_response E request_url kwargs w)) = files w
     \<and> environ (snd (get_response E request_url kwargs w)) = environ w
     \<and> the_connection (snd (get_response E request_url kwargs w)) = the_connection w
     \<and> (is_set (Singleton_instance w) \<longrightarrow> snd (get_response E request_url kwargs w) = w)"
  by (cases "Singleton_instance w")
     (simp_all add: get_response_def the_connection_def Connection_call_def)

theorem get_response_not_configured_witness:
  "\<not> is_valid (the_connection (snd (proxy ''proxy.local'' ''8080'' ''u'' ''p'' empty_world)))
   \<and> is_set (Singleton_instance (snd (proxy ''proxy.local'' ''8080'' ''u'' ''p'' empty_world)))
   \<and> fst (get_response stub_env ''https://outlook.office365.com/api'' Map.empty
        (snd (proxy ''proxy.local'' ''8080'' ''u'' ''p'' empty_world)))
       = Inl (RuntimeError NotConfigured)
   \<and> snd (get_response stub_env ''https://outlook.office365.com/api'' Map.empty
        (snd (proxy ''proxy.local'' ''8080'' ''u'' ''p'' empty_world)))
       = snd (proxy ''proxy.local'' ''8080'' ''u'' ''p'' empty_world)"
proof -
  have a: "\<not> is_valid (the_connection (snd (proxy ''proxy.local'' ''8080'' ''u'' ''p'' empty_world)))"
    by (simp add: proxy_def Connection_call_def empty_world_def the_connection_def Let_def
          is_valid_def Connection_init_def)
  have b: "is_set (Singleton_instance (snd (proxy ''proxy.local'' ''8080'' ''u'' ''p'' empty_world)))"
    by (simp add: proxy_def Connection_call_def empty_world_def Let_def)
  show ?thesis
    using a b get_response_not_configured
      [OF a, of stub_env "''https://outlook.office365.com/api''" Map.empty]
    by simp
qed

section \<open>The round trip of a token\<close>




section \<open>Authorisation without a stored token\<close>













section \<open>Refreshing an expired token\<close>

lemma send_request_expired:
  assumes v: "api_version c \<noteq> Some ''1.0''" and s: "oauth c = Some s"
    and first: "session_get E (length (trace w)) s url p = Inl TokenExpiredError"
  shows "send_request E url p c w =
     (case refresh_token E (length (trace w) + 1) s oauth2_token_url (client_id c) (client_secret c) of
        Inl e \<Rightarrow>
          (Inl e, w\<lparr>trace := trace w @ [SessionGet s url p,
                      RefreshToken s oauth2_token_url (client_id c) (client_secret c)]\<rparr>)
      | Inr tok \<Rightarrow>
          (session_get E (length (trace w) + 2) s url p,
           w\<lparr>files := (files w)(default_token_path E \<mapsto> json_dump E tok),
             trace := trace w @ [SessionGet s url p,
                      RefreshToken s oauth2_token_url (client_id c) (client_secret c),
                      SessionGet s url p]\<rparr>))"
  using v s first
  by (simp add: send_request_def Let_def emit_def save_token_def resolve_path_def split: sum.split)



lemma oauth_world_eval:
  "oauth_world =
     \<lparr>Singleton_instance = Some oauth_conn, files = [''/tmp/token'' \<mapsto> ''A''],
      environ = Map.empty, trace = []\<rparr>"
  by (simp add: oauth_world_def oauth_conn_def oauth2_def Connection_call_def empty_world_def
        load_token_def save_token_def resolve_path_def Let_def stub_env_sel stub_dump_def
        stub_load_def token_a_def Connection_init_def)




section \<open>Reading the response\<close>








text \<open>
  A "value" that cannot be iterated, or an element that is not a mapping or a sequence of
  pairs, ends the reading with the error of the iteration or of the constructor.
\<close>

lemma read_values_null:
  "r_json r = Inr (JObj [(''value'', JNull)]) \<Longrightarrow> read_values r = Inl TypeError"
  by (simp add: read_values_def)

lemma read_values_number_element:
  "r_json r = Inr (JObj [(''value'', JArr [JNum 1])]) \<Longrightarrow> read_values r = Inl TypeError"
  by (simp add: read_values_def)




lemma login_world_eval:
  "login_world =
     \<lparr>Singleton_instance = Some login_conn, files = Map.empty, environ = Map.empty, trace = []\<rparr>"
  by (simp add: login_world_def login_conn_def login_def Connection_call_def empty_world_def
        Let_def Connection_init_def)



section \<open>The options of the GET\<close>

lemma build_params_caller: "kwargs k = Some v \<Longrightarrow> build_params c kwargs k = Some v"
  by (simp add: build_params_def Let_def map_add_def)

lemma build_params_proxies:
  "kwargs k = None \<Longrightarrow>
     build_params c kwargs k =
       (if k = ''proxies'' then
          (case proxy_dict c of None \<Rightarrow> None | Some d \<Rightarrow> if d = [] then None else Some (Proxies d))
        else None)"
  by (simp add: build_params_def Let_def map_add_def split: option.split)

lemma send_request_sent_options:
  assumes "is_valid c"
  shows "sent_options w (snd (send_request E url p c w)) \<noteq> []
     \<and> set (sent_options w (snd (send_request E url p c w))) =
         {if api_version c = Some ''1.0'' then p(''auth'' \<mapsto> Creds (auth c)) else p}"
proof (cases "api_version c = Some ''1.0''")
  case True
  then show ?thesis
    by (simp add: send_request_def Let_def emit_def sent_options_def)
next
  case False
  with assms obtain s where s: "oauth c = Some s"
    by (cases "oauth c") (auto simp: is_valid_def split: if_splits)
  show ?thesis
  proof (cases "session_get E (length (trace w)) s url p = Inl TokenExpiredError")
    case expired: True
    show ?thesis
      using False
      by (simp add: send_request_expired [OF False s expired] sent_options_def split: sum.split)
  next
    case ok: False
    with False s show ?thesis
      by (simp add: send_request_def Let_def emit_def sent_options_def)
  qed
qed

lemma get_response_world:
  assumes "Singleton_instance w = Some c" and "is_valid c"
  shows "snd (get_response E url kwargs w) = snd (send_request E url (build_params c kwargs) c w)"
  using assms
  by (simp add: get_response_def Connection_call_def split: prod.split sum.split)

lemma valid_instance:
  assumes "is_valid (the_connection w)"
  shows "Singleton_instance w = Some (the_connection w)"
  using assms
  by (cases "Singleton_instance w")
     (simp_all add: the_connection_def Connection_call_def is_valid_def Connection_init_def)

text \<open>
  C2, as the code has it. On a valid connection \<^verbatim>\<open>get_response\<close> sends at least one GET,
  and every GET it sends carries the same options. With api version 2.0 they are the
  \<open>proxies\<close> entry (when \<open>proxy_dict\<close> is set), overlaid with the caller's keyword
  options, the caller's value winning on every key. With api version 1.0 the entry
  \<open>auth\<close> of these options is then set to the credentials of the connection: on every
  other key the caller's value wins, on \<open>auth\<close> the connection's does.
\<close>

theorem get_response_options:
  assumes "is_valid (the_connection w)"
  shows "sent_options w (snd (get_response E url kwargs w)) \<noteq> []
     \<and> (\<forall>p \<in> set (sent_options w (snd (get_response E url kwargs w))).
          p = (if api_version (the_connection w) = Some ''1.0''
               then (build_params (the_connection w) kwargs)(''auth'' \<mapsto> Creds (auth (the_connection w)))
               else build_params (the_connection w) kwargs))
     \<and> (kwargs k = Some v \<longrightarrow> build_params (the_connection w) kwargs k = Some v)
     \<and> (kwargs k = None \<longrightarrow>
          build_params (the_connection w) kwargs k =
            (if k = ''proxies'' then
               (case proxy_dict (the_connection w) of
                  None \<Rightarrow> None
                | Some d \<Rightarrow> if d = [] then None else Some (Proxies d))
             else None))"
proof -
  note i = valid_instance [OF assms]
  note g = get_response_world [OF i assms]
  note so = send_request_sent_options [OF assms]
  show ?thesis
    by (simp add: g so build_params_caller build_params_proxies)
qed

text \<open>
  C2 as it is stated fails with api version 1.0: a caller who passes \<open>auth\<close> does not win
  on that key. The merged options hold the caller's value, the GET is sent with the
  credentials of the connection.
\<close>

theorem get_response_options_counterexample:
  "is_valid (the_connection login_world)
   \<and> build_params (the_connection login_world) [''auth'' \<mapsto> Opt (JStr ''mine'')] ''auth''
       = Some (Opt (JStr ''mine''))
   \<and> sent_values ''auth'' login_world
        (snd (get_response stub_env ''https://outlook.office365.com/api''
                [''auth'' \<mapsto> Opt (JStr ''mine'')] login_world))
       = [Some (Creds (Some (''u'', ''p'')))]"
  by (simp add: login_world_eval the_connection_def Connection_call_def is_valid_def login_conn_def
        build_params_def get_response_def send_request_def Let_def emit_def sent_values_def
        sent_options_def stub_env_sel Connection_init_def)


lemma proxy_oauth_world_eval:
  "snd (proxy ''proxy.local'' ''8080'' ''pu'' ''pp'' oauth_world) =
     \<lparr>Singleton_instance = Some (oauth_conn\<lparr>proxy_dict := Some
          [(''http'', ''http://pu:pp@proxy.local:8080''),
           (''https'', ''https://pu:pp@proxy.local:8080'')]\<rparr>),
      files = [''/tmp/token'' \<mapsto> ''A''], environ = Map.empty, trace = []\<rparr>"
  by (simp add: proxy_def oauth_world_eval Connection_call_def Let_def)

theorem get_response_options_witness:
  "is_valid (the_connection login_world)
   \<and> sent_values ''timeout'' login_world
        (snd (get_response stub_env ''https://outlook.office365.com/api''
                [''auth'' \<mapsto> Opt (JStr ''mine''), ''timeout'' \<mapsto> Opt (JNum 5)] login_world))
       = [Some (Opt (JNum 5))]
   \<and> sent_values ''auth'' login_world
        (snd (get_response stub_env ''https://outlook.office365.com/api''
                [''auth'' \<mapsto> Opt (JStr ''mine''), ''timeout'' \<mapsto> Opt (JNum 5)] login_world))
       = [Some (Creds (Some (''u'', ''p'')))]
   \<and> is_valid (the_connection (snd (proxy ''proxy.local'' ''8080'' ''pu'' ''pp'' oauth_world)))
   \<and> sent_values ''proxies'' (snd (proxy ''proxy.local'' ''8080'' ''pu'' ''pp'' oauth_world))
        (snd (get_response stub_env ''https://outlook.office365.com/api''
                [''auth'' \<mapsto> Opt (JStr ''mine'')]
                (snd (proxy ''proxy.local'' ''8080'' ''pu'' ''pp'' oauth_world))))
       = [Some (Proxies [(''http'', ''http://pu:pp@proxy.local:8080''),
                         (''https'', ''https://pu:pp@proxy.local:8080'')]),
          Some (Proxies [(''http'', ''http://pu:pp@proxy.local:8080''),
                         (''https'', ''https://pu:pp@proxy.local:8080'')])]
   \<and> sent_values ''auth'' (snd (proxy ''proxy.local'' ''8080'' ''pu'' ''pp'' oauth_world))
        (snd (get_response stub_env ''https://outlook.office365.com/api''
                [''auth'' \<mapsto> Opt (JStr ''mine'')]
                (snd (proxy ''proxy.local'' ''8080'' ''pu'' ''pp'' oauth_world))))
       = [Some (Opt (JStr ''mine'')), Some (Opt (JStr ''mine''))]
   \<and> sent_values ''proxies'' (snd (proxy ''proxy.local'' ''8080'' ''pu'' ''pp'' oauth_world))
        (snd (get_response stub_env ''https://outlook.office365.com/api''
                [''proxies'' \<mapsto> Opt JNull]
                (snd (proxy ''proxy.local'' ''8080'' ''pu'' ''pp'' oauth_world))))
       = [Some (Opt JNull), Some (Opt JNull)]"
proof -
  let ?url = "''https://outlook.office365.com/api''"
  let ?w2 = "snd (proxy ''proxy.local'' ''8080'' ''pu'' ''pp'' oauth_world)"
  have v1: "is_valid (the_connection login_world)"
    by (simp add: login_world_eval the_connection_def Connection_call_def is_valid_def
          login_conn_def)
  have v2: "is_valid (the_connection ?w2)"
    by (simp add: proxy_oauth_world_eval the_connection_def Connection_call_def is_valid_def
          oauth_conn_def)
  have e1: "sent_values k login_world (snd (get_response stub_env ?url kw login_world)) =
              [((build_params login_conn kw)(''auth'' \<mapsto> Creds (Some (''u'', ''p'')))) k]" for k kw
    by (simp add: login_world_eval Connection_call_def is_valid_def login_conn_def
          get_response_def send_request_def Let_def emit_def sent_values_def
          sent_options_def stub_env_sel Connection_init_def)
  have e2: "sent_values k ?w2 (snd (get_response stub_env ?url kw ?w2)) =
              [build_params (the_connection ?w2) kw k, build_params (the_connection ?w2) kw k]" for k kw
    by (simp add: proxy_oauth_world_eval the_connection_def Connection_call_def is_valid_def
          oauth_conn_def get_response_def send_request_def Let_def emit_def save_token_def
          sent_values_def sent_options_def stub_env_sel Connection_init_def)
  have c2: "proxy_dict (the_connection ?w2) =
              Some [(''http'', ''http://pu:pp@proxy.local:8080''),
                    (''https'', ''https://pu:pp@proxy.local:8080'')]"
    by (simp add: proxy_oauth_world_eval the_connection_def Connection_call_def)
  show ?thesis
    using v1 v2
      get_response_options [OF v1, of stub_env ?url
        "[''auth'' \<mapsto> Opt (JStr ''mine''), ''timeout'' \<mapsto> Opt (JNum 5)]" "''timeout''"
        "Opt (JNum 5)"]
      get_response_options [OF v2, of stub_env ?url "[''auth'' \<mapsto> Opt (JStr ''mine'')]"
        "''proxies''"]
      get_response_options [OF v2, of stub_env ?url "[''auth'' \<mapsto> Opt (JStr ''mine'')]"
        "''auth''" "Opt (JStr ''mine'')"]
      get_response_options [OF v2, of stub_env ?url "[''proxies'' \<mapsto> Opt JNull]"
        "''proxies''" "Opt JNull"]
    by (simp add: e1 e2 c2 build_params_caller build_params_proxies)
qed


section \<open>The fields after a sequence of calls\<close>














end
